theory Spec2Isabelle
  imports Main "HOL-Library.Code_Target_Nat"
begin

text \<open>
  A model of \<open>main.py\<close>: the search stage \<open>brave_search\<close>, the summarization stage
  \<open>summarize_with_openai\<close>, the dispatch stage \<open>handle_message\<close>, the webhook endpoint
  \<open>telegram_webhook\<close> and the shutdown half of \<open>lifespan\<close>. Every
  \<open>await\<close> is a plain call, exceptions are values of a sum type, and the calls a run
  makes to the outside (chat replies, the two provider requests) are collected in a trace, in
  order. The calls of \<open>logger\<close> change nothing that is observed here and are left out.
\<close>

section \<open>Python values\<close>

text \<open>
  A Python \<open>str\<close> is a sequence of Unicode code points, so it is modelled as a list of
  naturals; \<open>ustr\<close> turns an ASCII literal into such a list. The two status replies of
  \<open>handle_message\<close> start with an emoji, which is one code point here as it is in Python.
\<close>

type_synonym pystr = "nat list"

definition ustr :: "string \<Rightarrow> pystr" where
  "ustr cs = map of_char cs"

text \<open>
  A Python \<open>float\<close> as \<open>json.loads\<close> can produce it: a finite value (mantissa and
  exponent), an infinity or NaN. Only its truth value matters to the code.
\<close>

datatype pyfloat = Finite int int | Infinity bool | NaN

text \<open>
  What \<open>resp.json()\<close> returns. An object is kept as the list of its members in document
  order; \<open>json.loads\<close> lets the last of several equal keys win, which \<open>dict_get\<close> below
  reproduces.
\<close>

datatype json =
    JNull
  | JBool bool
  | JInt int
  | JFloat pyfloat
  | JStr pystr
  | JArr "json list"
  | JObj "(pystr \<times> json) list"

text \<open>
  The exceptions the code can meet. \<open>RequestError\<close> (timeouts, connection failures) and
  \<open>HTTPStatusError\<close> (raised by \<open>raise_for_status\<close>) are the subclasses of
  \<open>httpx.HTTPError\<close>; everything else is caught only by \<open>except Exception\<close>.
\<close>

datatype exn =
    RequestError
  | HTTPStatusError
  | JSONDecodeError
  | TypeError
  | KeyError
  | IndexError
  | AttributeError
  | TelegramError
  | RuntimeError
  | HTTPException nat

fun is_HTTPError :: "exn \<Rightarrow> bool" where
  "is_HTTPError RequestError = True"
| "is_HTTPError HTTPStatusError = True"
| "is_HTTPError _ = False"

subsection \<open>Built-in operations of Python used by the code\<close>

text \<open>\<open>bool(v)\<close>: the truth value of a decoded JSON value.\<close>

fun py_truthy :: "json \<Rightarrow> bool" where
  "py_truthy JNull = False"
| "py_truthy (JBool b) = b"
| "py_truthy (JInt i) = (i \<noteq> 0)"
| "py_truthy (JFloat (Finite m e)) = (m \<noteq> 0)"
| "py_truthy (JFloat (Infinity s)) = True"
| "py_truthy (JFloat NaN) = True"
| "py_truthy (JStr s) = (s \<noteq> [])"
| "py_truthy (JArr xs) = (xs \<noteq> [])"
| "py_truthy (JObj kvs) = (kvs \<noteq> [])"

fun startswith :: "pystr \<Rightarrow> pystr \<Rightarrow> bool" where
  "startswith hay [] = True"
| "startswith [] (c # cs) = False"
| "startswith (h # hs) (c # cs) = (h = c \<and> startswith hs cs)"

text \<open>\<open>needle in hay\<close> for two strings: substring search.\<close>

fun str_contains :: "pystr \<Rightarrow> pystr \<Rightarrow> bool" where
  "str_contains [] needle = (needle = [])"
| "str_contains (h # hs) needle = (startswith (h # hs) needle \<or> str_contains hs needle)"

definition dict_get :: "(pystr \<times> json) list \<Rightarrow> pystr \<Rightarrow> json option" where
  "dict_get kvs k = map_of (rev kvs) k"

text \<open>
  \<open>key in v\<close> for a string key: key membership in a dict, element membership in a list,
  substring test in a string, and \<open>TypeError\<close> for \<open>None\<close>, booleans and numbers, which
  are not iterable.
\<close>

fun py_in :: "pystr \<Rightarrow> json \<Rightarrow> exn + bool" where
  "py_in k (JObj kvs) = Inr (dict_get kvs k \<noteq> None)"
| "py_in k (JArr xs) = Inr (JStr k \<in> set xs)"
| "py_in k (JStr s) = Inr (str_contains s k)"
| "py_in k _ = Inl TypeError"

text \<open>
  \<open>v[key]\<close> for a string key: the member of a dict or \<open>KeyError\<close>; lists and strings
  accept only integer indices and the remaining values are not subscriptable, so they raise
  \<open>TypeError\<close>.
\<close>

fun py_getitem :: "json \<Rightarrow> pystr \<Rightarrow> exn + json" where
  "py_getitem (JObj kvs) k = (case dict_get kvs k of None \<Rightarrow> Inl KeyError | Some v \<Rightarrow> Inr v)"
| "py_getitem _ k = Inl TypeError"

text \<open>
  \<open>v[0]\<close>: the first element of a list, the first character of a string (a string of
  length one), \<open>IndexError\<close> when either is empty; a decoded JSON object has string keys
  only, so \<open>0\<close> is a missing key; other values are not subscriptable.
\<close>

fun py_getitem0 :: "json \<Rightarrow> exn + json" where
  "py_getitem0 (JArr []) = Inl IndexError"
| "py_getitem0 (JArr (x # xs)) = Inr x"
| "py_getitem0 (JStr []) = Inl IndexError"
| "py_getitem0 (JStr (c # cs)) = Inr (JStr [c])"
| "py_getitem0 (JObj kvs) = Inl KeyError"
| "py_getitem0 _ = Inl TypeError"

text \<open>
  \<open>v[:3]\<close> as the sequence the list comprehension then iterates over: the first three
  elements of a list, the first three characters of a string; a dict rejects a slice as key
  and the remaining values are not subscriptable.
\<close>

fun py_slice3 :: "json \<Rightarrow> exn + json list" where
  "py_slice3 (JArr xs) = Inr (take 3 xs)"
| "py_slice3 (JStr s) = Inr (map (\<lambda>c. JStr [c]) (take 3 s))"
| "py_slice3 _ = Inl TypeError"

text \<open>\<open>r.get(key, default)\<close>: only a dict has the method.\<close>

fun py_get :: "json \<Rightarrow> pystr \<Rightarrow> json \<Rightarrow> exn + json" where
  "py_get (JObj kvs) k d = (case dict_get kvs k of None \<Rightarrow> Inr d | Some v \<Rightarrow> Inr v)"
| "py_get _ k d = Inl AttributeError"

fun digits :: "nat \<Rightarrow> pystr" where
  "digits n = (if n < 10 then [48 + n] else digits (n div 10) @ [48 + n mod 10])"

declare digits.simps [simp del]

text \<open>
  \<open>f"{v}"\<close>: a string is inserted as it is, \<open>None\<close>, booleans and integers by their
  \<open>str\<close>. The text of a float, a list or a dict (Python's \<open>repr\<close> of the nested values)
  is left to the parameter \<open>render\<close>.
\<close>

fun py_format :: "(json \<Rightarrow> pystr) \<Rightarrow> json \<Rightarrow> pystr" where
  "py_format render (JStr s) = s"
| "py_format render JNull = ustr ''None''"
| "py_format render (JBool b) = (if b then ustr ''True'' else ustr ''False'')"
| "py_format render (JInt i) = (if i < 0 then 45 # digits (nat (- i)) else digits (nat i))"
| "py_format render v = render v"

text \<open>\<open>sep.join(xs)\<close>.\<close>

fun join :: "pystr \<Rightarrow> pystr list \<Rightarrow> pystr" where
  "join sep [] = []"
| "join sep [x] = x"
| "join sep (x # y # ys) = x @ sep @ join sep (y # ys)"

text \<open>
  \<open>str.isspace\<close> on one code point, the set \<open>str.strip()\<close> removes: the ASCII white
  space and separators, NEL, the no-break space and the Unicode space separators.
\<close>

definition py_isspace :: "nat \<Rightarrow> bool" where
  "py_isspace c = ((9 \<le> c \<and> c \<le> 13) \<or> (28 \<le> c \<and> c \<le> 32) \<or> c = 133 \<or> c = 160
     \<or> c = 5760 \<or> (8192 \<le> c \<and> c \<le> 8202) \<or> c = 8232 \<or> c = 8233 \<or> c = 8239
     \<or> c = 8287 \<or> c = 12288)"

definition py_strip :: "pystr \<Rightarrow> pystr" where
  "py_strip s = rev (dropWhile py_isspace (rev (dropWhile py_isspace s)))"

text \<open>
  \<open>str.lower()\<close>: an ASCII capital goes to its small letter and every other ASCII
  character stays. What a code point beyond ASCII becomes (possibly several code points) is
  the parameter \<open>lower_ext\<close>. Python's one rule that looks at the neighbours of a
  character, for the Greek capital sigma, chooses between two letters beyond ASCII and is
  not modelled.
\<close>

definition py_lower :: "(nat \<Rightarrow> pystr) \<Rightarrow> pystr \<Rightarrow> pystr" where
  "py_lower lower_ext s =
     concat (map (\<lambda>c. if 65 \<le> c \<and> c \<le> 90 then [c + 32]
                       else if c < 128 then [c] else lower_ext c) s)"

section \<open>The environment of one run\<close>

text \<open>
  What \<open>http_client.get\<close> or \<open>http_client.post\<close> does: it raises, or it returns a
  response with a status code and a body; the body is \<open>None\<close> when \<open>resp.json()\<close>
  cannot decode it.
\<close>

datatype http_result = Raised exn | Returned nat "json option"

text \<open>
  The part of a chat-platform update the handler reads: \<open>update.message\<close> and
  \<open>update.message.text\<close>, each of which may be \<open>None\<close>.

  The environment is everything outside the program that a run depends on: the answer of
  the search provider to a query, the answer of the summarization provider to a user
  prompt, whether the \<open>n\<close>-th call of \<open>reply_text\<close> of the run (counted from 0)
  raises, the two parameters of the built-ins above, what \<open>Update.de_json\<close> makes of a
  decoded body (an exception, \<open>None\<close> or an update) and whether the filter
  \<open>filters.TEXT & ~filters.COMMAND\<close> of the registered handler accepts an update.
\<close>

record Message =
  message_text :: "pystr option"

record Update =
  message :: "Message option"

record env =
  search_response :: "pystr \<Rightarrow> http_result"
  openai_response :: "pystr \<Rightarrow> http_result"
  reply_raises :: "nat \<Rightarrow> bool"
  render :: "json \<Rightarrow> pystr"
  lower_ext :: "nat \<Rightarrow> pystr"
  de_json :: "json \<Rightarrow> exn + Update option"
  handler_accepts :: "Update \<Rightarrow> bool"

text \<open>
  The observable actions of a run, in the order they happen: a call of \<open>reply_text\<close>
  with its argument, the GET to the search provider with its \<open>q\<close> parameter, the POST to
  the summarization provider with the content of its user message.
\<close>

datatype event = Reply json | HttpGet pystr | HttpPost pystr

fun is_reply :: "event \<Rightarrow> bool" where
  "is_reply (Reply v) = True"
| "is_reply _ = False"

fun is_outbound :: "event \<Rightarrow> bool" where
  "is_outbound (Reply v) = False"
| "is_outbound _ = True"

definition replies :: "event list \<Rightarrow> event list" where
  "replies tr = filter is_reply tr"

definition outbound :: "event list \<Rightarrow> event list" where
  "outbound tr = filter is_outbound tr"

text \<open>\<open>resp.raise_for_status()\<close>: httpx raises \<open>HTTPStatusError\<close> unless the status is 2xx.\<close>

definition raise_for_status :: "nat \<Rightarrow> exn + unit" where
  "raise_for_status status = (if 200 \<le> status \<and> status \<le> 299 then Inr () else Inl HTTPStatusError)"

text \<open>\<open>resp.json()\<close>.\<close>

definition resp_json :: "json option \<Rightarrow> exn + json" where
  "resp_json body = (case body of None \<Rightarrow> Inl JSONDecodeError | Some v \<Rightarrow> Inr v)"

text \<open>Sequencing of steps that may raise.\<close>

definition bind :: "exn + 'a \<Rightarrow> ('a \<Rightarrow> exn + 'b) \<Rightarrow> exn + 'b" where
  "bind m f = (case m of Inl e \<Rightarrow> Inl e | Inr x \<Rightarrow> f x)"

fun mapM :: "('a \<Rightarrow> exn + 'b) \<Rightarrow> 'a list \<Rightarrow> exn + 'b list" where
  "mapM f [] = Inr []"
| "mapM f (x # xs) = bind (f x) (\<lambda>y. bind (mapM f xs) (\<lambda>ys. Inr (y # ys)))"

section \<open>Search Stage: \<open>brave_search\<close>\<close>

definition no_results_sentinel :: pystr where
  "no_results_sentinel = ustr ''No search results found.''"

definition search_unavailable :: pystr where
  "search_unavailable = ustr ''Search service temporarily unavailable.''"

definition search_error :: pystr where
  "search_error = ustr ''An error occurred during search.''"

text \<open>One element of the list comprehension: \<open>f"{r.get('title', 'No title')} - {r.get('url', 'No URL')}"\<close>.\<close>

definition format_result :: "env \<Rightarrow> json \<Rightarrow> exn + pystr" where
  "format_result e r =
     bind (py_get r (ustr ''title'') (JStr (ustr ''No title''))) (\<lambda>t.
     bind (py_get r (ustr ''url'') (JStr (ustr ''No URL''))) (\<lambda>u.
       Inr (py_format (render e) t @ ustr '' - '' @ py_format (render e) u)))"

text \<open>Lines 63 to 69: what the \<open>try\<close> block computes from the decoded body.\<close>

definition search_digest :: "env \<Rightarrow> json \<Rightarrow> exn + pystr" where
  "search_digest e data =
     bind (py_in (ustr ''web'') data) (\<lambda>has_web.
       if \<not> has_web then Inr no_results_sentinel
       else bind (py_getitem data (ustr ''web'')) (\<lambda>web.
         bind (py_in (ustr ''results'') web) (\<lambda>has_results.
           if \<not> has_results then Inr no_results_sentinel
           else bind (py_getitem web (ustr ''results'')) (\<lambda>results.
             if \<not> py_truthy results then Inr no_results_sentinel
             else bind (py_slice3 results) (\<lambda>top.
               bind (mapM (format_result e) top) (\<lambda>lines.
                 Inr (join [10] lines)))))))"

text \<open>Lines 59 to 69: the whole \<open>try\<close> block, given what the GET does.\<close>

definition brave_search_try :: "env \<Rightarrow> pystr \<Rightarrow> exn + pystr" where
  "brave_search_try e query =
     (case search_response e query of
        Raised x \<Rightarrow> Inl x
      | Returned status body \<Rightarrow>
          bind (raise_for_status status) (\<lambda>_.
          bind (resp_json body) (\<lambda>data. search_digest e data)))"

text \<open>
  \<open>brave_search\<close>: the outbound call it makes and the string it returns. The two
  \<open>except\<close> clauses turn every exception into a fixed string.
\<close>

definition brave_search :: "env \<Rightarrow> pystr \<Rightarrow> event list \<times> pystr" where
  "brave_search e query =
     ([HttpGet query],
      case brave_search_try e query of
        Inr s \<Rightarrow> s
      | Inl x \<Rightarrow> if is_HTTPError x then search_unavailable else search_error)"


section \<open>Summarization Stage: \<open>summarize_with_openai\<close>\<close>

definition unable_sentinel :: pystr where
  "unable_sentinel = ustr ''Unable to generate summary.''"

definition summary_unavailable :: pystr where
  "summary_unavailable = ustr ''Summary service temporarily unavailable.''"

definition summary_error :: pystr where
  "summary_error = ustr ''An error occurred while generating summary.''"

text \<open>The content of the user message of the request: the fixed instruction, a newline, the text.\<close>

definition user_prompt :: "pystr \<Rightarrow> pystr" where
  "user_prompt txt = ustr ''Summarize and explain these search results:'' @ [10] @ txt"

text \<open>\<open>result["choices"][0]["message"]["content"]\<close>, given \<open>result["choices"]\<close>.\<close>

definition first_choice_content :: "json \<Rightarrow> exn + json" where
  "first_choice_content choices =
     bind (py_getitem0 choices) (\<lambda>choice.
     bind (py_getitem choice (ustr ''message'')) (\<lambda>msg.
       py_getitem msg (ustr ''content'')))"

text \<open>
  Lines 106 to 108. The returned content is whatever value the provider put there; nothing
  checks that it is a string.
\<close>

definition summary_of :: "json \<Rightarrow> exn + json" where
  "summary_of result =
     bind (py_in (ustr ''choices'') result) (\<lambda>has_choices.
       if \<not> has_choices then Inr (JStr unable_sentinel)
       else bind (py_getitem result (ustr ''choices'')) (\<lambda>choices.
         if \<not> py_truthy choices then Inr (JStr unable_sentinel)
         else first_choice_content choices))"

definition summarize_try :: "env \<Rightarrow> pystr \<Rightarrow> exn + json" where
  "summarize_try e txt =
     (case openai_response e (user_prompt txt) of
        Raised x \<Rightarrow> Inl x
      | Returned status body \<Rightarrow>
          bind (raise_for_status status) (\<lambda>_.
          bind (resp_json body) (\<lambda>result. summary_of result)))"

definition summarize_with_openai :: "env \<Rightarrow> pystr \<Rightarrow> event list \<times> json" where
  "summarize_with_openai e txt =
     ([HttpPost (user_prompt txt)],
      case summarize_try e txt of
        Inr v \<Rightarrow> v
      | Inl x \<Rightarrow> if is_HTTPError x then JStr summary_unavailable else JStr summary_error)"

section \<open>Dispatch Stage: \<open>handle_message\<close>\<close>

definition prompt_reply :: pystr where
  "prompt_reply = ustr ''Please send a search query.''"

definition ack_search :: pystr where
  "ack_search = 128270 # ustr '' Searching...''"

definition ack_summarize :: pystr where
  "ack_summarize = 128161 # ustr '' Generating summary...''"

definition apology :: pystr where
  "apology = ustr ''Sorry, an error occurred. Please try again.''"

text \<open>
  \<open>update.message.reply_text(v)\<close>: the call is recorded, and it raises when the
  environment says that this call of the run does.
\<close>

definition reply_text :: "env \<Rightarrow> event list \<Rightarrow> json \<Rightarrow> event list \<times> (exn + unit)" where
  "reply_text e tr v =
     (tr @ [Reply v], if reply_raises e (length (replies tr)) then Inl TelegramError else Inr ())"

text \<open>Sequencing of steps that extend the trace and may raise.\<close>

definition and_then ::
  "'t \<times> (exn + 'a) \<Rightarrow> ('t \<Rightarrow> 'a \<Rightarrow> 't \<times> (exn + 'b)) \<Rightarrow> 't \<times> (exn + 'b)" where
  "and_then m f = (case m of (t, Inl x) \<Rightarrow> (t, Inl x) | (t, Inr a) \<Rightarrow> f t a)"

text \<open>Line 132: \<open>"error" in results.lower() or "unavailable" in results.lower()\<close>.\<close>

definition is_failure :: "env \<Rightarrow> pystr \<Rightarrow> bool" where
  "is_failure e results =
     (str_contains (py_lower (lower_ext e) results) (ustr ''error'')
      \<or> str_contains (py_lower (lower_ext e) results) (ustr ''unavailable''))"

text \<open>Line 120: \<open>not update.message or not update.message.text\<close>.\<close>

definition silent_reject :: "Update \<Rightarrow> bool" where
  "silent_reject upd =
     (case message upd of
        None \<Rightarrow> True
      | Some m \<Rightarrow> (case message_text m of None \<Rightarrow> True | Some t \<Rightarrow> t = []))"

text \<open>Lines 123 to 141, for a message with a text \<open>t\<close> that passed the check of line 120.\<close>

definition pipeline :: "env \<Rightarrow> pystr \<Rightarrow> event list \<times> (exn + unit)" where
  "pipeline e t =
     (let query = py_strip t in
      if query = [] then reply_text e [] (JStr prompt_reply)
      else
        and_then (reply_text e [] (JStr ack_search)) (\<lambda>tr1 _.
          let (evs, results) = brave_search e query; tr2 = tr1 @ evs in
          if is_failure e results then reply_text e tr2 (JStr results)
          else
            and_then (reply_text e tr2 (JStr ack_summarize)) (\<lambda>tr3 _.
              let (evs', summary) = summarize_with_openai e results in
              reply_text e (tr3 @ evs') summary)))"

text \<open>The \<open>try\<close> block of \<open>handle_message\<close>.\<close>

definition handle_message_try :: "env \<Rightarrow> Update \<Rightarrow> event list \<times> (exn + unit)" where
  "handle_message_try e upd =
     (case message upd of
        None \<Rightarrow> ([], Inr ())
      | Some m \<Rightarrow>
          (case message_text m of
             None \<Rightarrow> ([], Inr ())
           | Some t \<Rightarrow> if t = [] then ([], Inr ()) else pipeline e t))"

text \<open>
  \<open>handle_message\<close>: the trace of the run, and the exception that leaves the handler if
  one does. The \<open>except\<close> clause replies through \<open>update.message\<close> again, outside any
  \<open>try\<close>.
\<close>

definition handle_message :: "env \<Rightarrow> Update \<Rightarrow> event list \<times> (exn + unit)" where
  "handle_message e upd =
     (case handle_message_try e upd of
        (tr, Inr u) \<Rightarrow> (tr, Inr u)
      | (tr, Inl x) \<Rightarrow>
          (case message upd of
             None \<Rightarrow> (tr, Inl AttributeError)
           | Some m \<Rightarrow> reply_text e tr (JStr apology)))"

section \<open>Webhook endpoint: \<open>telegram_webhook\<close>\<close>

text \<open>\<open>await request.json()\<close>: the body is \<open>None\<close> when it is not JSON.\<close>

definition request_json :: "json option \<Rightarrow> exn + json" where
  "request_json body = (case body of None \<Rightarrow> Inl JSONDecodeError | Some v \<Rightarrow> Inr v)"

text \<open>
  \<open>telegram_app.process_update(update)\<close>: the dispatch engine runs the registered
  handler when its filter accepts the update, and keeps an exception of the handler to
  itself.
\<close>

definition process_update :: "env \<Rightarrow> Update \<Rightarrow> event list" where
  "process_update e upd = (if handler_accepts e upd then fst (handle_message e upd) else [])"

definition ok_body :: json where
  "ok_body = JObj [(ustr ''ok'', JBool True)]"

text \<open>Lines 153 to 160: the \<open>try\<close> block of the endpoint.\<close>

definition telegram_webhook_try :: "env \<Rightarrow> json option \<Rightarrow> event list \<times> (exn + json)" where
  "telegram_webhook_try e body =
     (case request_json body of
        Inl x \<Rightarrow> ([], Inl x)
      | Inr json_data \<Rightarrow>
          (case de_json e json_data of
             Inl x \<Rightarrow> ([], Inl x)
           | Inr None \<Rightarrow> ([], Inl (HTTPException 400))
           | Inr (Some upd) \<Rightarrow> (process_update e upd, Inr ok_body)))"

text \<open>
  The endpoint: \<open>except Exception\<close> (lines 162 to 164) replaces every exception of the
  \<open>try\<close> block by \<open>HTTPException(status_code=500)\<close>.
\<close>

definition telegram_webhook :: "env \<Rightarrow> json option \<Rightarrow> event list \<times> (exn + json)" where
  "telegram_webhook e body =
     (case telegram_webhook_try e body of
        (tr, Inr v) \<Rightarrow> (tr, Inr v)
      | (tr, Inl x) \<Rightarrow> (tr, Inl (HTTPException 500)))"

text \<open>The status of the HTTP response the framework builds from the endpoint's outcome.\<close>

fun http_status :: "exn + json \<Rightarrow> nat" where
  "http_status (Inr v) = 200"
| "http_status (Inl (HTTPException code)) = code"
| "http_status (Inl x) = 500"

section \<open>Process lifecycle: \<open>lifespan\<close>\<close>

text \<open>
  The calls of \<open>lifespan\<close>: creating the HTTP client, \<open>telegram_app.initialize()\<close>,
  \<open>telegram_app.start()\<close> before the \<open>yield\<close>; \<open>telegram_app.stop()\<close> and
  \<open>http_client.aclose()\<close> after it.
\<close>

datatype lifecycle = CreateClient | Initialize | Start | Stop | Aclose

text \<open>One call: it is recorded as made, and it raises when the environment says so.\<close>

definition perform ::
  "(lifecycle \<Rightarrow> bool) \<Rightarrow> lifecycle list \<Rightarrow> lifecycle \<Rightarrow> lifecycle list \<times> (exn + unit)" where
  "perform raises made c = (made @ [c], if raises c then Inl RuntimeError else Inr ())"

text \<open>Lines 35 to 38.\<close>

definition lifespan_startup :: "(lifecycle \<Rightarrow> bool) \<Rightarrow> lifecycle list \<times> (exn + unit)" where
  "lifespan_startup raises =
     and_then (perform raises [] CreateClient) (\<lambda>made _.
     and_then (perform raises made Initialize) (\<lambda>made _.
       perform raises made Start))"

text \<open>Lines 43 and 44: two awaits in a row, with no \<open>try\<close> around either.\<close>

definition lifespan_shutdown :: "(lifecycle \<Rightarrow> bool) \<Rightarrow> lifecycle list \<times> (exn + unit)" where
  "lifespan_shutdown raises =
     and_then (perform raises [] Stop) (\<lambda>made _. perform raises made Aclose)"

text \<open>A call has completed when it was made and did not raise.\<close>

definition completed :: "(lifecycle \<Rightarrow> bool) \<Rightarrow> lifecycle list \<Rightarrow> lifecycle \<Rightarrow> bool" where
  "completed raises made c = (c \<in> set made \<and> \<not> raises c)"

section \<open>Notions used in the statements\<close>

text \<open>
  A webhook body is unparseable when it is not JSON, when \<open>Update.de_json\<close> raises on
  it, or when \<open>Update.de_json\<close> returns \<open>None\<close> for it.
\<close>

definition unparseable :: "env \<Rightarrow> json option \<Rightarrow> bool" where
  "unparseable e body =
     (case request_json body of
        Inl x \<Rightarrow> True
      | Inr json_data \<Rightarrow> (case de_json e json_data of Inr (Some upd) \<Rightarrow> False | _ \<Rightarrow> True))"

text \<open>An update without any text field: no message, or a message whose text is \<open>None\<close>.\<close>

definition no_text_field :: "Update \<Rightarrow> bool" where
  "no_text_field upd =
     (case message upd of None \<Rightarrow> True | Some m \<Rightarrow> message_text m = None)"

text \<open>
  A digest line for one result object: its title, \<open>" - "\<close>, its URL, with the
  placeholders for a member that is missing.
\<close>

definition entry_line :: "env \<Rightarrow> (pystr \<times> json) list \<Rightarrow> pystr" where
  "entry_line e kvs =
     py_format (render e)
       (case dict_get kvs (ustr ''title'') of None \<Rightarrow> JStr (ustr ''No title'') | Some v \<Rightarrow> v)
     @ ustr '' - '' @
     py_format (render e)
       (case dict_get kvs (ustr ''url'') of None \<Rightarrow> JStr (ustr ''No URL'') | Some v \<Rightarrow> v)"

text \<open>A well-formed but empty result set: an object whose \<open>web.results\<close> is the empty list.\<close>

definition empty_result_set :: "json \<Rightarrow> bool" where
  "empty_result_set data =
     (case data of
        JObj kvs \<Rightarrow>
          (case dict_get kvs (ustr ''web'') of
             Some (JObj ws) \<Rightarrow> dict_get ws (ustr ''results'') = Some (JArr [])
           | _ \<Rightarrow> False)
      | _ \<Rightarrow> False)"

text \<open>
  A completion without choices: an object in which \<open>choices\<close> is missing or has a false
  truth value (the empty list, \<open>null\<close>).
\<close>

definition no_choices :: "json \<Rightarrow> bool" where
  "no_choices data =
     (case data of
        JObj kvs \<Rightarrow>
          (case dict_get kvs (ustr ''choices'') of None \<Rightarrow> True | Some c \<Rightarrow> \<not> py_truthy c)
      | _ \<Rightarrow> False)"

section \<open>Sample environments and updates\<close>

definition sample_results :: json where
  "sample_results = JObj [(ustr ''web'', JObj [(ustr ''results'',
      JArr [JObj [(ustr ''title'', JStr (ustr ''Isabelle'')),
                  (ustr ''url'', JStr (ustr ''https://isabelle.in.tum.de''))],
            JObj [(ustr ''title'', JStr (ustr ''HOL''))]])])]"

definition sample_completion :: json where
  "sample_completion = JObj [(ustr ''choices'',
      JArr [JObj [(ustr ''message'',
                   JObj [(ustr ''content'', JStr (ustr ''A proof assistant.''))])]])]"

definition empty_results :: json where
  "empty_results = JObj [(ustr ''web'', JObj [(ustr ''results'', JArr [])])]"

definition empty_completion :: json where
  "empty_completion = JObj [(ustr ''choices'', JArr [])]"

text \<open>
  Both providers answer, every reply goes through, and \<open>Update.de_json\<close> returns
  \<open>None\<close> whatever it is given.
\<close>

definition calm :: env where
  "calm = \<lparr> search_response = (\<lambda>q. Returned 200 (Some sample_results)),
            openai_response = (\<lambda>p. Returned 200 (Some sample_completion)),
            reply_raises = (\<lambda>n. False),
            render = (\<lambda>v. []),
            lower_ext = (\<lambda>c. [c]),
            de_json = (\<lambda>j. Inr None),
            handler_accepts = (\<lambda>u. True) \<rparr>"

definition nth_fails :: "nat \<Rightarrow> nat \<Rightarrow> bool" where
  "nth_fails k n = (n = k)"

text \<open>As \<open>calm\<close>, but the call of \<open>reply_text\<close> number \<open>k\<close> raises.\<close>

definition deaf :: "nat \<Rightarrow> env" where
  "deaf k = calm\<lparr>reply_raises := nth_fails k\<rparr>"

text \<open>The search provider cannot be reached.\<close>

definition offline :: env where
  "offline = calm\<lparr>search_response := (\<lambda>q. Raised RequestError)\<rparr>"

text \<open>The search provider answers with an empty result set.\<close>

definition sparse :: env where
  "sparse = calm\<lparr>search_response := (\<lambda>q. Returned 200 (Some empty_results))\<rparr>"

text \<open>As \<open>sparse\<close>, and the second call of \<open>reply_text\<close> raises.\<close>

definition barren :: env where
  "barren = sparse\<lparr>reply_raises := nth_fails 1\<rparr>"

text \<open>The summarization provider answers without choices.\<close>

definition mute :: env where
  "mute = calm\<lparr>openai_response := (\<lambda>p. Returned 200 (Some empty_completion))\<rparr>"

text \<open>The summarization provider answers 503 with a body that is not JSON.\<close>

definition unreachable :: env where
  "unreachable = calm\<lparr>openai_response := (\<lambda>p. Returned 503 None)\<rparr>"

text \<open>The summarization provider answers with two choices.\<close>

definition two_choice_completion :: json where
  "two_choice_completion = JObj [(ustr ''choices'',
      JArr [JObj [(ustr ''message'',
                   JObj [(ustr ''content'', JStr (ustr ''First answer.''))])],
            JObj [(ustr ''message'',
                   JObj [(ustr ''content'', JStr (ustr ''Second answer.''))])]])]"

definition chatty :: env where
  "chatty = calm\<lparr>openai_response := (\<lambda>p. Returned 200 (Some two_choice_completion))\<rparr>"

definition text_update :: "pystr \<Rightarrow> Update" where
  "text_update t = \<lparr> message = Some \<lparr> message_text = Some t \<rparr> \<rparr>"

definition photo_update :: Update where
  "photo_update = \<lparr> message = Some \<lparr> message_text = None \<rparr> \<rparr>"

fun stop_fails :: "lifecycle \<Rightarrow> bool" where
  "stop_fails Stop = True"
| "stop_fails _ = False"

fun close_fails :: "lifecycle \<Rightarrow> bool" where
  "close_fails Aclose = True"
| "close_fails _ = False"

section \<open>Auxiliary facts\<close>

lemma bind_Inr_iff: "bind m f = Inr y \<longleftrightarrow> (\<exists>x. m = Inr x \<and> f x = Inr y)"
  by (cases m) (simp_all add: bind_def)

lemma fst_brave_search: "fst (brave_search e q) = [HttpGet q]"
  by (simp add: brave_search_def)

lemma fst_summarize: "fst (summarize_with_openai e txt) = [HttpPost (user_prompt txt)]"
  by (simp add: summarize_with_openai_def)

text \<open>The five ways through lines 123 to 141.\<close>

lemma pipeline_cases:
  assumes q: "q = py_strip t"
    and r: "r = snd (brave_search e q)"
    and s: "s = snd (summarize_with_openai e r)"
  shows "pipeline e t =
    (if q = [] then
       ([Reply (JStr prompt_reply)], if reply_raises e 0 then Inl TelegramError else Inr ())
     else if reply_raises e 0 then ([Reply (JStr ack_search)], Inl TelegramError)
     else if is_failure e r then
       ([Reply (JStr ack_search), HttpGet q, Reply (JStr r)],
        if reply_raises e 1 then Inl TelegramError else Inr ())
     else if reply_raises e 1 then
       ([Reply (JStr ack_search), HttpGet q, Reply (JStr ack_summarize)], Inl TelegramError)
     else
       ([Reply (JStr ack_search), HttpGet q, Reply (JStr ack_summarize),
         HttpPost (user_prompt r), Reply s],
        if reply_raises e 2 then Inl TelegramError else Inr ()))"
proof -
  have b: "brave_search e q = ([HttpGet q], r)"
    using r fst_brave_search [of e q] by (cases "brave_search e q") simp
  have p: "summarize_with_openai e r = ([HttpPost (user_prompt r)], s)"
    using s fst_summarize [of e r] by (cases "summarize_with_openai e r") simp
  show ?thesis
    unfolding pipeline_def Let_def q [symmetric]
    by (simp add: b p reply_text_def and_then_def replies_def numeral_2_eq_2)
qed

lemma handle_message_text:
  assumes "message upd = Some m" and "message_text m = Some t" and "t \<noteq> []"
  shows "handle_message e upd =
    (case pipeline e t of
       (tr, Inr u) \<Rightarrow> (tr, Inr u)
     | (tr, Inl x) \<Rightarrow> reply_text e tr (JStr apology))"
  using assms
  by (simp add: handle_message_def handle_message_try_def split: prod.splits sum.splits)

lemma handle_message_silent:
  assumes "silent_reject upd"
  shows "handle_message e upd = ([], Inr ())"
  using assms
  by (auto simp: silent_reject_def handle_message_def handle_message_try_def
      split: option.splits)

lemma not_silentD:
  assumes "\<not> silent_reject upd"
  obtains m t where "message upd = Some m" and "message_text m = Some t" and "t \<noteq> []"
  using assms by (auto simp: silent_reject_def split: option.splits)

lemma try_raises_has_message:
  assumes "handle_message_try e upd = (tr, Inl x)"
  shows "message upd \<noteq> None"
  using assms by (auto simp: handle_message_try_def split: option.splits)

lemma replies_empty_iff_silent:
  "replies (fst (handle_message e upd)) = [] \<longleftrightarrow> silent_reject upd"
proof (cases "silent_reject upd")
  case True
  then show ?thesis by (simp add: handle_message_silent replies_def)
next
  case False
  then obtain m t where mt: "message upd = Some m" "message_text m = Some t" "t \<noteq> []"
    by (rule not_silentD)
  have "replies (fst (handle_message e upd)) \<noteq> []"
    unfolding handle_message_text [OF mt] pipeline_cases [OF refl refl refl]
    by (simp add: reply_text_def replies_def)
  with False show ?thesis by simp
qed

text \<open>A run that reached the search stage: what its update and environment were.\<close>

lemma search_invoked:
  assumes "HttpGet q \<in> set (fst (handle_message e upd))"
  obtains m t where "message upd = Some m" and "message_text m = Some t" and "t \<noteq> []"
    and "q = py_strip t" and "q \<noteq> []" and "\<not> reply_raises e 0"
proof -
  have "\<not> silent_reject upd"
    using assms handle_message_silent [of upd e] by auto
  then obtain m t where mt: "message upd = Some m" "message_text m = Some t" "t \<noteq> []"
    by (rule not_silentD)
  from assms have "q = py_strip t \<and> py_strip t \<noteq> [] \<and> \<not> reply_raises e 0"
    unfolding handle_message_text [OF mt] pipeline_cases [OF refl refl refl]
    by (auto simp: reply_text_def replies_def split: if_splits)
  with mt that show ?thesis by blast
qed

lemma format_result_Inr:
  assumes "format_result e r = Inr l"
  shows "\<exists>kvs. r = JObj kvs \<and> l = entry_line e kvs"
  using assms
  by (cases r) (auto simp: format_result_def bind_def entry_line_def split: option.splits)

lemma mapM_format_result:
  assumes "mapM (format_result e) xs = Inr ls"
  shows "\<exists>kvss. xs = map JObj kvss \<and> ls = map (entry_line e) kvss"
  using assms
proof (induction xs arbitrary: ls)
  case Nil
  then show ?case by simp
next
  case (Cons x xs)
  from Cons.prems obtain l ls' where l: "format_result e x = Inr l"
    and ls': "mapM (format_result e) xs = Inr ls'" and ls: "ls = l # ls'"
    by (auto simp: bind_Inr_iff)
  from format_result_Inr [OF l] obtain kvs where x: "x = JObj kvs" "l = entry_line e kvs"
    by blast
  from Cons.IH [OF ls'] obtain kvss
    where xs: "xs = map JObj kvss" "ls' = map (entry_line e) kvss"
    by blast
  have "x # xs = map JObj (kvs # kvss) \<and> ls = map (entry_line e) (kvs # kvss)"
    using x xs ls by simp
  then show ?case by (rule exI)
qed

lemma py_slice3_truthy:
  assumes "py_slice3 v = Inr items" and "py_truthy v"
  shows "items \<noteq> [] \<and> length items \<le> 3"
  using assms by (cases v) auto

lemma search_digest_Inr:
  assumes "search_digest e data = Inr s"
  shows "s = no_results_sentinel
    \<or> (\<exists>kvss. kvss \<noteq> [] \<and> length kvss \<le> 3 \<and> s = join [10] (map (entry_line e) kvss))"
proof (cases "s = no_results_sentinel")
  case True
  then show ?thesis by simp
next
  case False
  with assms obtain results items ls where "py_truthy results"
    and items: "py_slice3 results = Inr items"
    and ls: "mapM (format_result e) items = Inr ls" and s: "s = join [10] ls"
    by (auto simp: search_digest_def bind_Inr_iff split: if_splits)
  from mapM_format_result [OF ls] obtain kvss
    where k: "items = map JObj kvss" "ls = map (entry_line e) kvss" by blast
  from py_slice3_truthy [OF items \<open>py_truthy results\<close>] k
  have "kvss \<noteq> [] \<and> length kvss \<le> 3" by auto
  with s k show ?thesis by blast
qed

lemma brave_search_try_Inr:
  assumes "brave_search_try e q = Inr s"
  shows "\<exists>data. search_digest e data = Inr s"
  using assms
  by (auto simp: brave_search_try_def bind_Inr_iff split: http_result.splits)

lemma brave_search_empty:
  assumes "search_response e q = Returned status (Some data)"
    and "200 \<le> status" and "status \<le> 299" and "empty_result_set data"
  shows "snd (brave_search e q) = no_results_sentinel"
proof -
  from assms(4) obtain kvs where d: "data = JObj kvs"
    by (cases data) (simp_all add: empty_result_set_def)
  from assms(4) d obtain v where v: "dict_get kvs (ustr ''web'') = Some v"
    by (cases "dict_get kvs (ustr ''web'')") (simp_all add: empty_result_set_def)
  from assms(4) d v obtain ws where w: "dict_get kvs (ustr ''web'') = Some (JObj ws)"
    and r: "dict_get ws (ustr ''results'') = Some (JArr [])"
    by (cases v) (simp_all add: empty_result_set_def)
  have "search_digest e data = Inr no_results_sentinel"
    by (simp add: search_digest_def bind_def d w r)
  then show ?thesis
    using assms(1,2,3)
    by (simp add: brave_search_def brave_search_try_def raise_for_status_def resp_json_def
        bind_def)
qed

lemma no_results_not_failure: "\<not> is_failure e no_results_sentinel"
  by (simp add: is_failure_def no_results_sentinel_def py_lower_def ustr_def)

lemma summarize_try_Inr:
  assumes "summarize_try e txt = Inr v"
  shows "\<exists>status data. openai_response e (user_prompt txt) = Returned status (Some data)
           \<and> summary_of data = Inr v"
  using assms
  by (auto simp: summarize_try_def bind_Inr_iff resp_json_def
      split: http_result.splits option.splits)

lemma summary_of_Inr:
  assumes "summary_of data = Inr v"
  shows "v = JStr unable_sentinel
    \<or> (\<exists>choices. py_getitem data (ustr ''choices'') = Inr choices
          \<and> first_choice_content choices = Inr v)"
  using assms by (auto simp: summary_of_def bind_Inr_iff split: if_splits)

lemma summary_of_no_choices:
  assumes "no_choices data"
  shows "summary_of data = Inr (JStr unable_sentinel)"
proof -
  from assms obtain kvs where d: "data = JObj kvs"
    by (cases data) (simp_all add: no_choices_def)
  show ?thesis
    using assms unfolding d
    by (cases "dict_get kvs (ustr ''choices'')") (simp_all add: no_choices_def summary_of_def bind_def)
qed

lemma mapM_format_objects:
  "mapM (format_result e) (map JObj kvss) = Inr (map (entry_line e) kvss)"
  by (induction kvss)
    (simp_all add: bind_def format_result_def entry_line_def split: option.splits)

lemma brave_search_digest:
  assumes "search_response e q = Returned status (Some (JObj kvs))"
    and "200 \<le> status" and "status \<le> 299"
    and "dict_get kvs (ustr ''web'') = Some (JObj ws)"
    and "dict_get ws (ustr ''results'') = Some (JArr (map JObj kvss))"
    and "kvss \<noteq> []"
  shows "snd (brave_search e q) = join [10] (map (entry_line e) (take 3 kvss))"
proof -
  have "search_digest e (JObj kvs) = Inr (join [10] (map (entry_line e) (take 3 kvss)))"
    using assms(4,5,6)
    by (simp add: search_digest_def bind_def take_map mapM_format_objects)
  then show ?thesis
    using assms(1,2,3)
    by (simp add: brave_search_def brave_search_try_def raise_for_status_def resp_json_def
        bind_def)
qed

lemma summarize_first_choice:
  assumes "openai_response e (user_prompt txt) = Returned status (Some data)"
    and "200 \<le> status" and "status \<le> 299"
    and "py_getitem data (ustr ''choices'') = Inr choices"
    and "py_truthy choices"
    and "first_choice_content choices = Inr v"
  shows "snd (summarize_with_openai e txt) = v"
proof -
  from assms(4) obtain kvs where d: "data = JObj kvs"
    by (cases data) simp_all
  from assms(4) d have c: "dict_get kvs (ustr ''choices'') = Some choices"
    by (simp split: option.splits)
  have "summary_of data = Inr v"
    using assms(5,6) by (simp add: summary_of_def bind_def d c)
  then show ?thesis
    using assms(1,2,3)
    by (simp add: summarize_with_openai_def summarize_try_def raise_for_status_def
        resp_json_def bind_def)
qed

lemma py_getitem_Inr:
  assumes "py_getitem v k = Inr w"
  shows "\<exists>kvs. v = JObj kvs \<and> dict_get kvs k = Some w"
  using assms by (cases v) (auto split: option.splits)

lemma py_getitem0_Inr_object:
  assumes "py_getitem0 v = Inr (JObj ckvs)"
  shows "\<exists>cs. v = JArr (JObj ckvs # cs)"
  using assms by (cases v rule: py_getitem0.cases) auto

lemma first_choice_content_Inr:
  assumes "first_choice_content choices = Inr v"
  shows "\<exists>ckvs cs mkvs. choices = JArr (JObj ckvs # cs)
      \<and> dict_get ckvs (ustr ''message'') = Some (JObj mkvs)
      \<and> dict_get mkvs (ustr ''content'') = Some v"
proof -
  from assms obtain choice msg where c: "py_getitem0 choices = Inr choice"
    and m: "py_getitem choice (ustr ''message'') = Inr msg"
    and v: "py_getitem msg (ustr ''content'') = Inr v"
    by (auto simp: first_choice_content_def bind_Inr_iff)
  from py_getitem_Inr [OF m] obtain ckvs
    where ck: "choice = JObj ckvs" "dict_get ckvs (ustr ''message'') = Some msg" by blast
  from py_getitem_Inr [OF v] obtain mkvs
    where mk: "msg = JObj mkvs" "dict_get mkvs (ustr ''content'') = Some v" by blast
  from py_getitem0_Inr_object [OF c [unfolded ck(1)]] obtain cs
    where "choices = JArr (JObj ckvs # cs)" ..
  with ck mk show ?thesis by blast
qed

lemma summarize_first_choice_object:
  assumes "openai_response e (user_prompt txt) = Returned status (Some (JObj kvs))"
    and "200 \<le> status" and "status \<le> 299"
    and "dict_get kvs (ustr ''choices'') = Some (JArr (JObj ckvs # cs))"
    and "dict_get ckvs (ustr ''message'') = Some (JObj mkvs)"
    and "dict_get mkvs (ustr ''content'') = Some v"
  shows "snd (summarize_with_openai e txt) = v"
proof -
  have g: "py_getitem (JObj kvs) (ustr ''choices'') = Inr (JArr (JObj ckvs # cs))"
    using assms(4) by simp
  have t: "py_truthy (JArr (JObj ckvs # cs))" by simp
  have f: "first_choice_content (JArr (JObj ckvs # cs)) = Inr v"
    using assms(5,6) by (simp add: first_choice_content_def bind_def)
  from summarize_first_choice [OF assms(1,2,3) g t f] show ?thesis .
qed

lemma py_strip_Nil: "py_strip [] = []"
  by (simp add: py_strip_def)

text \<open>The endpoint has two outcomes only; none of them is a 400 response.\<close>

lemma telegram_webhook_never_400: "http_status (snd (telegram_webhook e body)) \<noteq> 400"
  by (auto simp: telegram_webhook_def telegram_webhook_try_def split: sum.splits option.splits)

section \<open>Properties of the search stage\<close>

text \<open>
  Claim C5. For every query and every behaviour of the search provider, \<open>brave_search\<close>
  makes exactly one outbound call, the GET with that query, and returns one of: a digest
  of one to three lines joined by newlines, each line a title, \<open>" - "\<close> and a URL with
  \<open>No title\<close> and \<open>No URL\<close> standing in for a missing member; the sentinel
  \<open>No search results found.\<close>; or one of the two fixed failure sentinels. No exception
  leaves it: whatever the \<open>try\<close> block raises is turned into a failure sentinel. When
  the provider answers with a non-empty list of result objects, the digest is made of the
  first three of them.
\<close>

theorem brave_search_outcomes:
  "fst (brave_search e q) = [HttpGet q]
   \<and> (snd (brave_search e q) \<in> {no_results_sentinel, search_unavailable, search_error}
      \<or> (\<exists>kvss. kvss \<noteq> [] \<and> length kvss \<le> 3
            \<and> snd (brave_search e q) = join [10] (map (entry_line e) kvss)))
   \<and> (\<forall>x. brave_search_try e q = Inl x \<longrightarrow>
         snd (brave_search e q) = (if is_HTTPError x then search_unavailable else search_error))
   \<and> (\<forall>status kvs ws kvss.
         search_response e q = Returned status (Some (JObj kvs))
         \<and> 200 \<le> status \<and> status \<le> 299
         \<and> dict_get kvs (ustr ''web'') = Some (JObj ws)
         \<and> dict_get ws (ustr ''results'') = Some (JArr (map JObj kvss))
         \<and> kvss \<noteq> [] \<longrightarrow>
         snd (brave_search e q) = join [10] (map (entry_line e) (take 3 kvss)))"
proof (intro conjI allI impI)
  show "fst (brave_search e q) = [HttpGet q]"
    by (rule fst_brave_search)
next
  show "snd (brave_search e q) \<in> {no_results_sentinel, search_unavailable, search_error}
      \<or> (\<exists>kvss. kvss \<noteq> [] \<and> length kvss \<le> 3
            \<and> snd (brave_search e q) = join [10] (map (entry_line e) kvss))"
  proof (cases "brave_search_try e q")
    case (Inl x)
    then show ?thesis by (simp add: brave_search_def)
  next
    case (Inr s)
    from brave_search_try_Inr [OF Inr] obtain data where "search_digest e data = Inr s" ..
    from search_digest_Inr [OF this] Inr show ?thesis
      by (auto simp: brave_search_def)
  qed
next
  fix x
  assume "brave_search_try e q = Inl x"
  then show "snd (brave_search e q) =
      (if is_HTTPError x then search_unavailable else search_error)"
    by (simp add: brave_search_def)
next
  fix status kvs ws kvss
  assume "search_response e q = Returned status (Some (JObj kvs))
    \<and> 200 \<le> status \<and> status \<le> 299
    \<and> dict_get kvs (ustr ''web'') = Some (JObj ws)
    \<and> dict_get ws (ustr ''results'') = Some (JArr (map JObj kvss))
    \<and> kvss \<noteq> []"
  then show "snd (brave_search e q) = join [10] (map (entry_line e) (take 3 kvss))"
    by (simp add: brave_search_digest)
qed

theorem brave_search_outcomes_witness:
  "brave_search_try offline (ustr ''hol'') = Inl RequestError
   \<and> brave_search offline (ustr ''hol'') = ([HttpGet (ustr ''hol'')], search_unavailable)
   \<and> brave_search calm (ustr ''hol'') =
       ([HttpGet (ustr ''hol'')],
        ustr ''Isabelle - https://isabelle.in.tum.de'' @ [10] @ ustr ''HOL - No URL'')"
proof -
  have h: "brave_search_try offline (ustr ''hol'') = Inl RequestError" by code_simp
  have r: "search_response calm (ustr ''hol'') =
      Returned 200 (Some (JObj [(ustr ''web'', JObj [(ustr ''results'',
        JArr (map JObj [[(ustr ''title'', JStr (ustr ''Isabelle'')),
                         (ustr ''url'', JStr (ustr ''https://isabelle.in.tum.de''))],
                        [(ustr ''title'', JStr (ustr ''HOL''))]]))])]))"
    by code_simp
  have w: "dict_get [(ustr ''web'', JObj [(ustr ''results'',
        JArr (map JObj [[(ustr ''title'', JStr (ustr ''Isabelle'')),
                         (ustr ''url'', JStr (ustr ''https://isabelle.in.tum.de''))],
                        [(ustr ''title'', JStr (ustr ''HOL''))]]))])] (ustr ''web'') =
      Some (JObj [(ustr ''results'',
        JArr (map JObj [[(ustr ''title'', JStr (ustr ''Isabelle'')),
                         (ustr ''url'', JStr (ustr ''https://isabelle.in.tum.de''))],
                        [(ustr ''title'', JStr (ustr ''HOL''))]]))])"
    by (simp add: dict_get_def)
  have v: "dict_get [(ustr ''results'',
        JArr (map JObj [[(ustr ''title'', JStr (ustr ''Isabelle'')),
                         (ustr ''url'', JStr (ustr ''https://isabelle.in.tum.de''))],
                        [(ustr ''title'', JStr (ustr ''HOL''))]]))] (ustr ''results'') =
      Some (JArr (map JObj [[(ustr ''title'', JStr (ustr ''Isabelle'')),
                         (ustr ''url'', JStr (ustr ''https://isabelle.in.tum.de''))],
                        [(ustr ''title'', JStr (ustr ''HOL''))]]))"
    by (simp add: dict_get_def)
  have d: "join [10] (map (entry_line calm)
        (take 3 [[(ustr ''title'', JStr (ustr ''Isabelle'')),
                  (ustr ''url'', JStr (ustr ''https://isabelle.in.tum.de''))],
                 [(ustr ''title'', JStr (ustr ''HOL''))]])) =
      ustr ''Isabelle - https://isabelle.in.tum.de'' @ [10] @ ustr ''HOL - No URL''"
    by code_simp
  have a: "snd (brave_search offline (ustr ''hol'')) = search_unavailable"
    using brave_search_outcomes [of offline "ustr ''hol''"] h by simp
  have b: "snd (brave_search calm (ustr ''hol'')) =
      ustr ''Isabelle - https://isabelle.in.tum.de'' @ [10] @ ustr ''HOL - No URL''"
  proof -
    from brave_search_outcomes [of calm "ustr ''hol''"]
    have "\<And>status kvs ws kvss.
        search_response calm (ustr ''hol'') = Returned status (Some (JObj kvs)) \<Longrightarrow>
        200 \<le> status \<Longrightarrow> status \<le> 299 \<Longrightarrow>
        dict_get kvs (ustr ''web'') = Some (JObj ws) \<Longrightarrow>
        dict_get ws (ustr ''results'') = Some (JArr (map JObj kvss)) \<Longrightarrow>
        kvss \<noteq> [] \<Longrightarrow>
        snd (brave_search calm (ustr ''hol'')) = join [10] (map (entry_line calm) (take 3 kvss))"
      by blast
    from this [OF r _ _ w v] d show ?thesis by simp
  qed
  from a b h brave_search_outcomes [of offline "ustr ''hol''"]
    brave_search_outcomes [of calm "ustr ''hol''"]
  show ?thesis by (simp add: prod_eq_iff)
qed

section \<open>Properties of the summarization stage\<close>

text \<open>
  Claim C6. For every input text and every behaviour of the summarization provider,
  \<open>summarize_with_openai\<close> makes one outbound call and returns one of: the content of
  the first choice of the provider's answer, that is the member \<open>content\<close> of the
  member \<open>message\<close> of the element at index 0 of the answer's list \<open>choices\<close>;
  the sentinel \<open>Unable to generate summary.\<close>, which is what it returns when the answer
  has no choices; or one of the two fixed failure sentinels. No exception leaves it:
  whatever the \<open>try\<close> block raises is turned into a failure sentinel. Whenever a 2xx
  answer has a first choice with such a content, that content is the result, whatever
  choices follow it and whether it is a string or not.
\<close>

theorem summarize_outcomes:
  "fst (summarize_with_openai e txt) = [HttpPost (user_prompt txt)]
   \<and> (snd (summarize_with_openai e txt)
        \<in> {JStr unable_sentinel, JStr summary_unavailable, JStr summary_error}
      \<or> (\<exists>status kvs ckvs cs mkvs.
            openai_response e (user_prompt txt) = Returned status (Some (JObj kvs))
            \<and> dict_get kvs (ustr ''choices'') = Some (JArr (JObj ckvs # cs))
            \<and> dict_get ckvs (ustr ''message'') = Some (JObj mkvs)
            \<and> dict_get mkvs (ustr ''content'') = Some (snd (summarize_with_openai e txt))))
   \<and> (\<forall>x. summarize_try e txt = Inl x \<longrightarrow>
         snd (summarize_with_openai e txt) =
           (if is_HTTPError x then JStr summary_unavailable else JStr summary_error))
   \<and> (\<forall>status data.
         openai_response e (user_prompt txt) = Returned status (Some data)
         \<and> 200 \<le> status \<and> status \<le> 299 \<and> no_choices data \<longrightarrow>
         snd (summarize_with_openai e txt) = JStr unable_sentinel)
   \<and> (\<forall>status kvs ckvs cs mkvs v.
         openai_response e (user_prompt txt) = Returned status (Some (JObj kvs))
         \<and> 200 \<le> status \<and> status \<le> 299
         \<and> dict_get kvs (ustr ''choices'') = Some (JArr (JObj ckvs # cs))
         \<and> dict_get ckvs (ustr ''message'') = Some (JObj mkvs)
         \<and> dict_get mkvs (ustr ''content'') = Some v \<longrightarrow>
         snd (summarize_with_openai e txt) = v)"
proof (intro conjI allI impI)
  show "fst (summarize_with_openai e txt) = [HttpPost (user_prompt txt)]"
    by (rule fst_summarize)
next
  show "snd (summarize_with_openai e txt)
        \<in> {JStr unable_sentinel, JStr summary_unavailable, JStr summary_error}
      \<or> (\<exists>status kvs ckvs cs mkvs.
            openai_response e (user_prompt txt) = Returned status (Some (JObj kvs))
            \<and> dict_get kvs (ustr ''choices'') = Some (JArr (JObj ckvs # cs))
            \<and> dict_get ckvs (ustr ''message'') = Some (JObj mkvs)
            \<and> dict_get mkvs (ustr ''content'') = Some (snd (summarize_with_openai e txt)))"
  proof (cases "summarize_try e txt")
    case (Inl x)
    then show ?thesis by (simp add: summarize_with_openai_def)
  next
    case (Inr v)
    from summarize_try_Inr [OF Inr] obtain status data
      where r: "openai_response e (user_prompt txt) = Returned status (Some data)"
        and d: "summary_of data = Inr v" by blast
    have v: "snd (summarize_with_openai e txt) = v"
      using Inr by (simp add: summarize_with_openai_def)
    show ?thesis
    proof (cases "v = JStr unable_sentinel")
      case True
      then show ?thesis by (simp add: v)
    next
      case False
      with summary_of_Inr [OF d] obtain choices
        where g: "py_getitem data (ustr ''choices'') = Inr choices"
          and f: "first_choice_content choices = Inr v" by blast
      from py_getitem_Inr [OF g] obtain kvs
        where k: "data = JObj kvs" "dict_get kvs (ustr ''choices'') = Some choices" by blast
      from first_choice_content_Inr [OF f] obtain ckvs cs mkvs
        where c: "choices = JArr (JObj ckvs # cs)"
          "dict_get ckvs (ustr ''message'') = Some (JObj mkvs)"
          "dict_get mkvs (ustr ''content'') = Some v" by blast
      from r k c show ?thesis unfolding v by blast
    qed
  qed
next
  fix x
  assume "summarize_try e txt = Inl x"
  then show "snd (summarize_with_openai e txt) =
      (if is_HTTPError x then JStr summary_unavailable else JStr summary_error)"
    by (simp add: summarize_with_openai_def)
next
  fix status data
  assume a: "openai_response e (user_prompt txt) = Returned status (Some data)
    \<and> 200 \<le> status \<and> status \<le> 299 \<and> no_choices data"
  then have "summary_of data = Inr (JStr unable_sentinel)"
    by (simp add: summary_of_no_choices)
  with a show "snd (summarize_with_openai e txt) = JStr unable_sentinel"
    by (simp add: summarize_with_openai_def summarize_try_def raise_for_status_def
        resp_json_def bind_def)
next
  fix status kvs ckvs cs mkvs v
  assume "openai_response e (user_prompt txt) = Returned status (Some (JObj kvs))
    \<and> 200 \<le> status \<and> status \<le> 299
    \<and> dict_get kvs (ustr ''choices'') = Some (JArr (JObj ckvs # cs))
    \<and> dict_get ckvs (ustr ''message'') = Some (JObj mkvs)
    \<and> dict_get mkvs (ustr ''content'') = Some v"
  then show "snd (summarize_with_openai e txt) = v"
    by (simp add: summarize_first_choice_object)
qed

theorem summarize_outcomes_witness:
  "no_choices empty_completion
   \<and> summarize_with_openai mute (ustr ''hol'') =
       ([HttpPost (user_prompt (ustr ''hol''))], JStr unable_sentinel)
   \<and> summarize_try unreachable (ustr ''hol'') = Inl HTTPStatusError
   \<and> snd (summarize_with_openai unreachable (ustr ''hol'')) = JStr summary_unavailable
   \<and> openai_response chatty (user_prompt (ustr ''hol'')) =
       Returned 200 (Some (JObj [(ustr ''choices'',
         JArr [JObj [(ustr ''message'',
                      JObj [(ustr ''content'', JStr (ustr ''First answer.''))])],
               JObj [(ustr ''message'',
                      JObj [(ustr ''content'', JStr (ustr ''Second answer.''))])]])]))
   \<and> snd (summarize_with_openai chatty (ustr ''hol'')) = JStr (ustr ''First answer.'')"
proof -
  have r: "openai_response mute (user_prompt (ustr ''hol'')) =
      Returned 200 (Some empty_completion)"
    by code_simp
  have n: "no_choices empty_completion" by code_simp
  have a: "snd (summarize_with_openai mute (ustr ''hol'')) = JStr unable_sentinel"
    using summarize_outcomes [of mute "ustr ''hol''"] r n by simp
  have f: "fst (summarize_with_openai mute (ustr ''hol'')) = [HttpPost (user_prompt (ustr ''hol''))]"
    using summarize_outcomes [of mute "ustr ''hol''"] by simp
  have h: "summarize_try unreachable (ustr ''hol'') = Inl HTTPStatusError" by code_simp
  have b: "snd (summarize_with_openai unreachable (ustr ''hol'')) = JStr summary_unavailable"
    using summarize_outcomes [of unreachable "ustr ''hol''"] h by simp
  have c1: "openai_response chatty (user_prompt (ustr ''hol'')) =
      Returned 200 (Some (JObj [(ustr ''choices'',
         JArr [JObj [(ustr ''message'',
                      JObj [(ustr ''content'', JStr (ustr ''First answer.''))])],
               JObj [(ustr ''message'',
                      JObj [(ustr ''content'', JStr (ustr ''Second answer.''))])]])]))"
    by code_simp
  have c2: "dict_get [(ustr ''choices'',
         JArr [JObj [(ustr ''message'',
                      JObj [(ustr ''content'', JStr (ustr ''First answer.''))])],
               JObj [(ustr ''message'',
                      JObj [(ustr ''content'', JStr (ustr ''Second answer.''))])]])]
        (ustr ''choices'') =
      Some (JArr (JObj [(ustr ''message'',
                      JObj [(ustr ''content'', JStr (ustr ''First answer.''))])]
               # [JObj [(ustr ''message'',
                      JObj [(ustr ''content'', JStr (ustr ''Second answer.''))])]]))"
    by (simp add: dict_get_def)
  have c3: "dict_get [(ustr ''message'',
                      JObj [(ustr ''content'', JStr (ustr ''First answer.''))])]
        (ustr ''message'') =
      Some (JObj [(ustr ''content'', JStr (ustr ''First answer.''))])"
    by (simp add: dict_get_def)
  have c4: "dict_get [(ustr ''content'', JStr (ustr ''First answer.''))] (ustr ''content'') =
      Some (JStr (ustr ''First answer.''))"
    by (simp add: dict_get_def)
  have c: "snd (summarize_with_openai chatty (ustr ''hol'')) = JStr (ustr ''First answer.'')"
  proof -
    from summarize_outcomes [of chatty "ustr ''hol''"]
    have "\<And>status kvs ckvs cs mkvs v.
        openai_response chatty (user_prompt (ustr ''hol'')) =
          Returned status (Some (JObj kvs)) \<Longrightarrow>
        200 \<le> status \<Longrightarrow> status \<le> 299 \<Longrightarrow>
        dict_get kvs (ustr ''choices'') = Some (JArr (JObj ckvs # cs)) \<Longrightarrow>
        dict_get ckvs (ustr ''message'') = Some (JObj mkvs) \<Longrightarrow>
        dict_get mkvs (ustr ''content'') = Some v \<Longrightarrow>
        snd (summarize_with_openai chatty (ustr ''hol'')) = v"
      by blast
    from this [OF c1 _ _ c2 c3 c4] show ?thesis by simp
  qed
  from a b c c1 f h n show ?thesis by (simp add: prod_eq_iff)
qed

section \<open>Properties of the dispatch stage\<close>

text \<open>
  Claim C2. When a step of the \<open>try\<close> block of \<open>handle_message\<close> raises, the handler
  catches the exception and sends exactly one further reply, the generic apology; when no
  step raises it adds nothing. Hence a run sends no reply at all only on the silent path
  of line 120 (no message, no text, or an empty text); every update that carries text gets
  at least one reply. A reply is sent when the handler calls \<open>reply_text\<close>. The apology
  is sent outside the \<open>try\<close> block, so the handler ends normally when that call does not
  itself raise.
\<close>

theorem handle_message_apology:
  "(\<forall>tr x. handle_message_try e upd = (tr, Inl x) \<longrightarrow>
       fst (handle_message e upd) = tr @ [Reply (JStr apology)]
       \<and> (\<not> reply_raises e (length (replies tr)) \<longrightarrow> snd (handle_message e upd) = Inr ()))
   \<and> (\<forall>tr u. handle_message_try e upd = (tr, Inr u) \<longrightarrow> handle_message e upd = (tr, Inr u))
   \<and> (replies (fst (handle_message e upd)) = [] \<longleftrightarrow> silent_reject upd)"
proof (intro conjI allI impI)
  fix tr x
  assume h: "handle_message_try e upd = (tr, Inl x)"
  from try_raises_has_message [OF h] h
  show "fst (handle_message e upd) = tr @ [Reply (JStr apology)]"
    by (auto simp: handle_message_def reply_text_def)
  assume "\<not> reply_raises e (length (replies tr))"
  with try_raises_has_message [OF h] h
  show "snd (handle_message e upd) = Inr ()"
    by (auto simp: handle_message_def reply_text_def)
next
  fix tr u
  assume "handle_message_try e upd = (tr, Inr u)"
  then show "handle_message e upd = (tr, Inr u)"
    by (simp add: handle_message_def)
next
  show "replies (fst (handle_message e upd)) = [] \<longleftrightarrow> silent_reject upd"
    by (rule replies_empty_iff_silent)
qed

theorem handle_message_apology_witness:
  "handle_message_try (deaf 0) (text_update (ustr ''hol'')) =
     ([Reply (JStr ack_search)], Inl TelegramError)
   \<and> fst (handle_message (deaf 0) (text_update (ustr ''hol''))) =
     [Reply (JStr ack_search), Reply (JStr apology)]
   \<and> snd (handle_message (deaf 0) (text_update (ustr ''hol''))) = Inr ()"
proof -
  have h: "handle_message_try (deaf 0) (text_update (ustr ''hol'')) =
      ([Reply (JStr ack_search)], Inl TelegramError)"
    by code_simp
  have r: "\<not> reply_raises (deaf 0) (length (replies [Reply (JStr ack_search)]))"
    by code_simp
  from handle_message_apology [of "deaf 0" "text_update (ustr ''hol'')"] h r
  show ?thesis by simp
qed

text \<open>
  Claim C4. When the search stage of a run returns a string that contains \<open>error\<close> or
  \<open>unavailable\<close> in any letter case, the handler passes exactly that string to
  \<open>reply_text\<close> as the reply after the search acknowledgement, and the search request
  stays the only provider call of the run: the summarization stage is not invoked. (If
  the relaying call raises, the apology follows it.)
\<close>

theorem failure_sentinel_relayed:
  assumes "HttpGet q \<in> set (fst (handle_message e upd))"
    and "is_failure e (snd (brave_search e q))"
  shows "fst (handle_message e upd) =
      [Reply (JStr ack_search), HttpGet q, Reply (JStr (snd (brave_search e q)))]
      @ (if reply_raises e 1 then [Reply (JStr apology)] else [])
    \<and> outbound (fst (handle_message e upd)) = [HttpGet q]"
proof -
  from assms(1) obtain m t where mt: "message upd = Some m" "message_text m = Some t" "t \<noteq> []"
    and q: "q = py_strip t" "q \<noteq> []" "\<not> reply_raises e 0"
    by (rule search_invoked)
  show ?thesis
    using q assms(2)
    unfolding handle_message_text [OF mt] pipeline_cases [OF refl refl refl]
    by (simp add: reply_text_def replies_def outbound_def)
qed

theorem failure_sentinel_relayed_witness:
  "is_failure offline (snd (brave_search offline (ustr ''hol'')))
   \<and> fst (handle_message offline (text_update (ustr ''hol''))) =
     [Reply (JStr ack_search), HttpGet (ustr ''hol''), Reply (JStr search_unavailable)]
   \<and> outbound (fst (handle_message offline (text_update (ustr ''hol'')))) =
     [HttpGet (ustr ''hol'')]"
proof -
  have h: "HttpGet (ustr ''hol'') \<in> set (fst (handle_message offline (text_update (ustr ''hol''))))"
    by code_simp
  have f: "is_failure offline (snd (brave_search offline (ustr ''hol'')))"
    by code_simp
  have s: "snd (brave_search offline (ustr ''hol'')) = search_unavailable"
    by code_simp
  have r: "\<not> reply_raises offline 1" by code_simp
  from failure_sentinel_relayed [OF h f] f s r show ?thesis by (simp add: outbound_def)
qed

text \<open>
  Claim C7, as stated, fails: with a search output that matches no failure marker and a
  summarization call that returns, the handler sends a fourth reply, the apology, when
  the call of \<open>reply_text\<close> for the summary raises.
\<close>

theorem three_replies_counterexample:
  "\<not> is_failure (deaf 2) (snd (brave_search (deaf 2) (ustr ''hol'')))
   \<and> HttpPost (user_prompt (snd (brave_search (deaf 2) (ustr ''hol''))))
       \<in> set (fst (handle_message (deaf 2) (text_update (ustr ''hol''))))
   \<and> replies (fst (handle_message (deaf 2) (text_update (ustr ''hol'')))) =
       [Reply (JStr ack_search), Reply (JStr ack_summarize),
        Reply (JStr (ustr ''A proof assistant.'')), Reply (JStr apology)]"
  by code_simp

text \<open>
  Claim C7, amended. For every message whose text is not empty after trimming and whose
  search output matches no failure marker, when none of the three calls of
  \<open>reply_text\<close> raises, the run sends exactly three replies, in this order: the search
  acknowledgement, the summarize acknowledgement and the value the summarization stage
  returned, whatever the summarization provider does; between them lie the search request
  and the summarization request, and the handler ends normally.
\<close>

theorem three_replies:
  assumes "message upd = Some m" and "message_text m = Some t"
    and "py_strip t \<noteq> []"
    and "\<not> is_failure e (snd (brave_search e (py_strip t)))"
    and "\<not> reply_raises e 0" and "\<not> reply_raises e 1" and "\<not> reply_raises e 2"
  shows "handle_message e upd =
       ([Reply (JStr ack_search), HttpGet (py_strip t), Reply (JStr ack_summarize),
         HttpPost (user_prompt (snd (brave_search e (py_strip t)))),
         Reply (snd (summarize_with_openai e (snd (brave_search e (py_strip t)))))], Inr ())
    \<and> replies (fst (handle_message e upd)) =
       [Reply (JStr ack_search), Reply (JStr ack_summarize),
        Reply (snd (summarize_with_openai e (snd (brave_search e (py_strip t)))))]"
proof -
  from assms(3) have t: "t \<noteq> []" using py_strip_Nil by auto
  show ?thesis
    using assms(3-7)
    unfolding handle_message_text [OF assms(1,2) t] pipeline_cases [OF refl refl refl]
    by (simp add: reply_text_def replies_def)
qed

theorem three_replies_witness:
  "py_strip (ustr '' hol '') = ustr ''hol''
   \<and> \<not> is_failure calm (snd (brave_search calm (ustr ''hol'')))
   \<and> handle_message calm (text_update (ustr '' hol '')) =
       ([Reply (JStr ack_search), HttpGet (ustr ''hol''), Reply (JStr ack_summarize),
         HttpPost (user_prompt (ustr ''Isabelle - https://isabelle.in.tum.de'' @ [10]
                                 @ ustr ''HOL - No URL'')),
         Reply (JStr (ustr ''A proof assistant.''))], Inr ())
   \<and> replies (fst (handle_message calm (text_update (ustr '' hol '')))) =
     [Reply (JStr ack_search), Reply (JStr ack_summarize),
      Reply (JStr (ustr ''A proof assistant.''))]"
proof -
  have m: "message (text_update (ustr '' hol '')) = Some \<lparr>message_text = Some (ustr '' hol '')\<rparr>"
    by (simp add: text_update_def)
  have t: "message_text \<lparr>message_text = Some (ustr '' hol '')\<rparr> = Some (ustr '' hol '')"
    by simp
  have p: "py_strip (ustr '' hol '') = ustr ''hol''" by code_simp
  have n: "py_strip (ustr '' hol '') \<noteq> []" by code_simp
  have f: "\<not> is_failure calm (snd (brave_search calm (py_strip (ustr '' hol ''))))"
    by code_simp
  have r0: "\<not> reply_raises calm 0" by code_simp
  have r1: "\<not> reply_raises calm 1" by code_simp
  have r2: "\<not> reply_raises calm 2" by code_simp
  have b: "snd (brave_search calm (ustr ''hol'')) =
      ustr ''Isabelle - https://isabelle.in.tum.de'' @ [10] @ ustr ''HOL - No URL''"
    by code_simp
  have s: "snd (summarize_with_openai calm (snd (brave_search calm (py_strip (ustr '' hol ''))))) =
      JStr (ustr ''A proof assistant.'')"
    by code_simp
  from three_replies [OF m t n f r0 r1 r2] f p b s show ?thesis
    by (simp add: replies_def)
qed

text \<open>
  Claim C8, as stated, fails twice. A message whose text is the empty string is empty
  after trimming, yet line 120 rejects it silently: no reply is sent. And for a text of
  white space only, the handler sends a second reply, the apology, when the call of
  \<open>reply_text\<close> for the prompt raises.
\<close>

theorem empty_query_counterexample:
  "py_strip [] = []
   \<and> replies (fst (handle_message calm (text_update []))) = []
   \<and> py_strip (ustr '' '') = []
   \<and> replies (fst (handle_message (deaf 0) (text_update (ustr '' '')))) =
       [Reply (JStr prompt_reply), Reply (JStr apology)]"
  by code_simp

text \<open>
  Claim C8, amended. For every message whose text is not empty but is empty after
  trimming, the run makes no call to either provider and its first reply is
  \<open>Please send a search query.\<close>; that is its only reply when the call of
  \<open>reply_text\<close> for it does not raise, and the apology follows it otherwise.
\<close>

theorem empty_query_prompt:
  assumes "message upd = Some m" and "message_text m = Some t"
    and "t \<noteq> []" and "py_strip t = []"
  shows "outbound (fst (handle_message e upd)) = []
    \<and> replies (fst (handle_message e upd)) =
       Reply (JStr prompt_reply) # (if reply_raises e 0 then [Reply (JStr apology)] else [])"
  using assms(4)
  unfolding handle_message_text [OF assms(1,2,3)] pipeline_cases [OF refl refl refl]
  by (simp add: reply_text_def replies_def outbound_def)

theorem empty_query_prompt_witness:
  "ustr ''  '' \<noteq> [] \<and> py_strip (ustr ''  '') = []
   \<and> outbound (fst (handle_message calm (text_update (ustr ''  '')))) = []
   \<and> replies (fst (handle_message calm (text_update (ustr ''  '')))) =
       [Reply (JStr prompt_reply)]"
proof -
  have m: "message (text_update (ustr ''  '')) = Some \<lparr>message_text = Some (ustr ''  '')\<rparr>"
    by (simp add: text_update_def)
  have t: "message_text \<lparr>message_text = Some (ustr ''  '')\<rparr> = Some (ustr ''  '')"
    by simp
  have n: "ustr ''  '' \<noteq> []" by code_simp
  have s: "py_strip (ustr ''  '') = []" by code_simp
  have r: "\<not> reply_raises calm 0" by code_simp
  from empty_query_prompt [OF m t n s, of calm] n s r show ?thesis by simp
qed

text \<open>
  Claim C9. For every update that carries no text field at all (no message, or a message
  without text), the handler sends no reply and makes no call to either provider, and it
  ends normally; the same holds when the update goes through the dispatch engine.
\<close>

theorem no_text_silent:
  assumes "no_text_field upd"
  shows "handle_message e upd = ([], Inr ())
    \<and> replies (fst (handle_message e upd)) = []
    \<and> outbound (fst (handle_message e upd)) = []
    \<and> process_update e upd = []"
proof -
  have "silent_reject upd"
    using assms by (auto simp: no_text_field_def silent_reject_def split: option.splits)
  then have "handle_message e upd = ([], Inr ())" by (rule handle_message_silent)
  then show ?thesis by (simp add: process_update_def replies_def outbound_def)
qed

theorem no_text_silent_witness:
  "no_text_field photo_update
   \<and> handle_message calm photo_update = ([], Inr ())
   \<and> process_update calm photo_update = []"
proof -
  have h: "no_text_field photo_update" by code_simp
  from no_text_silent [OF h, of calm] h show ?thesis by simp
qed

text \<open>
  Claim C10, as stated, fails: the search provider returns an empty result set and the
  search stage returns \<open>No search results found.\<close>, which matches no failure marker, but
  the summarization stage is not invoked when the call of \<open>reply_text\<close> for the second
  acknowledgement raises.
\<close>

theorem empty_results_counterexample:
  "search_response barren (ustr ''hol'') = Returned 200 (Some empty_results)
   \<and> empty_result_set empty_results
   \<and> snd (brave_search barren (ustr ''hol'')) = no_results_sentinel
   \<and> fst (handle_message barren (text_update (ustr ''hol''))) =
       [Reply (JStr ack_search), HttpGet (ustr ''hol''), Reply (JStr ack_summarize),
        Reply (JStr apology)]"
  by code_simp

text \<open>
  Claim C10, amended. When the search provider answers the search of a run with a
  well-formed but empty result set, the search stage returns
  \<open>No search results found.\<close>, which contains neither \<open>error\<close> nor \<open>unavailable\<close>,
  so the handler does not stop there: it sends the second acknowledgement and, when that
  call does not raise, invokes the summarization stage on that sentinel text and passes
  what the stage returns to \<open>reply_text\<close>. (If this last call raises, the apology follows
  it.)
\<close>

theorem empty_results_summarized:
  assumes "HttpGet q \<in> set (fst (handle_message e upd))"
    and "search_response e q = Returned status (Some data)"
    and "200 \<le> status" and "status \<le> 299" and "empty_result_set data"
    and "\<not> reply_raises e 1"
  shows "snd (brave_search e q) = no_results_sentinel
    \<and> \<not> is_failure e no_results_sentinel
    \<and> fst (handle_message e upd) =
       [Reply (JStr ack_search), HttpGet q, Reply (JStr ack_summarize),
        HttpPost (user_prompt no_results_sentinel),
        Reply (snd (summarize_with_openai e no_results_sentinel))]
       @ (if reply_raises e 2 then [Reply (JStr apology)] else [])"
proof -
  from assms(1) obtain m t where mt: "message upd = Some m" "message_text m = Some t" "t \<noteq> []"
    and q: "q = py_strip t" "q \<noteq> []" "\<not> reply_raises e 0"
    by (rule search_invoked)
  have r: "snd (brave_search e (py_strip t)) = no_results_sentinel"
    using brave_search_empty [OF assms(2,3,4,5)] q(1) by simp
  show ?thesis
    using q assms(6) no_results_not_failure [of e]
    unfolding handle_message_text [OF mt] pipeline_cases [OF refl refl refl] r
    by (simp add: reply_text_def replies_def r)
qed

theorem empty_results_summarized_witness:
  "empty_result_set empty_results
   \<and> fst (handle_message sparse (text_update (ustr ''hol''))) =
       [Reply (JStr ack_search), HttpGet (ustr ''hol''), Reply (JStr ack_summarize),
        HttpPost (user_prompt no_results_sentinel),
        Reply (JStr (ustr ''A proof assistant.''))]"
proof -
  have h: "HttpGet (ustr ''hol'') \<in> set (fst (handle_message sparse (text_update (ustr ''hol''))))"
    by code_simp
  have p: "search_response sparse (ustr ''hol'') = Returned 200 (Some empty_results)"
    by code_simp
  have d: "empty_result_set empty_results" by code_simp
  have r1: "\<not> reply_raises sparse 1" by code_simp
  have r2: "\<not> reply_raises sparse 2" by code_simp
  have s: "snd (summarize_with_openai sparse no_results_sentinel) =
      JStr (ustr ''A proof assistant.'')"
    by code_simp
  from empty_results_summarized [OF h p _ _ d r1] d r2 s show ?thesis by simp
qed

section \<open>Properties of the webhook endpoint\<close>

text \<open>
  Claim C1. A \<open>POST /webhook\<close> whose body is an unparseable update payload is said to be
  answered with HTTP 400, without chat replies or provider calls. The endpoint makes no
  reply and no provider call for such a body, but its answer is HTTP 500: the
  \<open>HTTPException(400)\<close> of line 160 is raised inside the \<open>try\<close> block, and the
  \<open>except Exception\<close> clause of line 162 catches it, like every other exception of
  the block, and raises \<open>HTTPException(500)\<close> in its place.
\<close>

theorem telegram_webhook_unparseable_500:
  assumes "unparseable e body"
  shows "telegram_webhook e body = ([], Inl (HTTPException 500))
    \<and> http_status (snd (telegram_webhook e body)) = 500"
  using assms
  by (auto simp: unparseable_def telegram_webhook_def telegram_webhook_try_def
      split: sum.splits option.splits)

theorem telegram_webhook_unparseable_500_witness:
  "unparseable calm (Some (JObj []))
   \<and> telegram_webhook calm (Some (JObj [])) = ([], Inl (HTTPException 500))
   \<and> http_status (snd (telegram_webhook calm (Some (JObj [])))) = 500"
proof -
  have h: "unparseable calm (Some (JObj []))" by code_simp
  from telegram_webhook_unparseable_500 [OF h] h show ?thesis by simp
qed

section \<open>Properties of the shutdown\<close>

text \<open>
  Claim C3, as stated, fails: when \<open>telegram_app.stop()\<close> raises, the exception leaves
  \<open>lifespan\<close> at line 43 and \<open>http_client.aclose()\<close> is never called.
\<close>

theorem lifespan_shutdown_counterexample:
  "stop_fails Stop \<and> Aclose \<notin> set (fst (lifespan_shutdown stop_fails))"
  by (simp add: lifespan_shutdown_def and_then_def perform_def)

text \<open>
  Claim C3, amended. On shutdown the stop of the dispatch engine is always called, and
  first; the close of the HTTP client is called exactly when the stop did not raise, and
  then whether or not the close itself raises. The close completes exactly when neither
  call raises.
\<close>

theorem lifespan_shutdown_sequential:
  "Stop \<in> set (fst (lifespan_shutdown raises))
   \<and> (Aclose \<in> set (fst (lifespan_shutdown raises)) \<longleftrightarrow> \<not> raises Stop)
   \<and> (\<not> raises Stop \<longrightarrow> fst (lifespan_shutdown raises) = [Stop, Aclose])
   \<and> (completed raises (fst (lifespan_shutdown raises)) Aclose
        \<longleftrightarrow> \<not> raises Stop \<and> \<not> raises Aclose)"
  by (simp add: lifespan_shutdown_def and_then_def perform_def completed_def)

theorem lifespan_shutdown_sequential_witness:
  "\<not> close_fails Stop
   \<and> fst (lifespan_shutdown close_fails) = [Stop, Aclose]
   \<and> completed close_fails (fst (lifespan_shutdown close_fails)) Stop
   \<and> \<not> completed close_fails (fst (lifespan_shutdown close_fails)) Aclose"
  using lifespan_shutdown_sequential [of close_fails] by (simp add: completed_def)

end
